theory Spec2Isabelle
  imports Complex_Main
begin

section \<open>JSON values\<close>

text \<open>
  The value that \<^verbatim>\<open>response.json()\<close> resolves to and that \<^verbatim>\<open>process.env\<close> is,
  seen as data. An object is an association list in insertion order; the platform never
  produces an object with a repeated key, and a lookup takes the first entry. A number is
  a rational: the finite doubles of JavaScript are among them and no function below
  computes with a number.
\<close>

datatype json =
    JNull
  | JBool bool
  | JNum rat
  | JStr string
  | JArr "json list"
  | JObj "(string \<times> json) list"

text \<open>The name zod gives to the type of a value it received (\<^verbatim>\<open>getParsedType\<close>).\<close>

fun parsedType :: "json \<Rightarrow> string" where
  "parsedType JNull = ''null''"
| "parsedType (JBool _) = ''boolean''"
| "parsedType (JNum _) = ''number''"
| "parsedType (JStr _) = ''string''"
| "parsedType (JArr _) = ''array''"
| "parsedType (JObj _) = ''object''"

section \<open>The schema combinators of zod that the repository uses\<close>

text \<open>
  zod is a dependency, not code of the repository; the combinators that
  \<^verbatim>\<open>lib/env.ts\<close>, \<^verbatim>\<open>types/strapi.ts\<close> and \<^verbatim>\<open>lib/strapi.ts\<close> call are modelled
  after zod 3: \<^verbatim>\<open>z.string()\<close> with its format checks, \<^verbatim>\<open>z.number()\<close>,
  \<^verbatim>\<open>z.enum\<close>, \<^verbatim>\<open>z.unknown()\<close>, \<^verbatim>\<open>.optional()\<close>, \<^verbatim>\<open>.brand()\<close>, \<^verbatim>\<open>z.array\<close>
  and \<^verbatim>\<open>z.object\<close>. A format check of a string schema is the name zod reports for it
  together with its test.
\<close>

datatype zschema =
    ZString "(string \<times> (string \<Rightarrow> bool)) list"
  | ZNumber
  | ZEnum "string list"
  | ZUnknown
  | ZOptional zschema
  | ZBranded zschema
  | ZArray zschema
  | ZObject "(string \<times> zschema) list"

datatype pathseg = Key string | Index nat

datatype issue_code =
    invalid_type string string
  | invalid_string string
  | invalid_enum_value "string list" string

datatype issue = Issue (code: issue_code) (path: "pathseg list")

text \<open>\<^verbatim>\<open>util.joinValues\<close>: the options of an enum as zod prints them in an issue.\<close>

fun joinValues :: "string list \<Rightarrow> string" where
  "joinValues [] = []"
| "joinValues [v] = [CHR 0x27] @ v @ [CHR 0x27]"
| "joinValues (v # vs) = [CHR 0x27] @ v @ [CHR 0x27] @ '' | '' @ joinValues vs"

text \<open>
  What a schema does with \<^verbatim>\<open>undefined\<close>, the value of a key the object lacks:
  \<^verbatim>\<open>.optional()\<close> and \<^verbatim>\<open>z.unknown()\<close> accept it, every other schema reports
  \<^verbatim>\<open>invalid_type\<close> with the type it expected.
\<close>

fun acceptsUndefined :: "zschema \<Rightarrow> bool" where
  "acceptsUndefined (ZOptional _) = True"
| "acceptsUndefined ZUnknown = True"
| "acceptsUndefined (ZBranded s) = acceptsUndefined s"
| "acceptsUndefined _ = False"

fun expectedType :: "zschema \<Rightarrow> string" where
  "expectedType (ZString _) = ''string''"
| "expectedType ZNumber = ''number''"
| "expectedType (ZEnum vs) = joinValues vs"
| "expectedType ZUnknown = ''unknown''"
| "expectedType (ZOptional s) = expectedType s"
| "expectedType (ZBranded s) = expectedType s"
| "expectedType (ZArray _) = ''array''"
| "expectedType (ZObject _) = ''object''"

text \<open>The array elements with their indices, as \<^verbatim>\<open>[...data].map((item, i) => ...)\<close> sees them.\<close>

definition indexed :: "'a list \<Rightarrow> (nat \<times> 'a) list" where
  "indexed xs = zip [0..<length xs] xs"

text \<open>
  \<^verbatim>\<open>schema._parse\<close>: the issues found, each with the path of the offending value, and
  the output value. Issues of sibling fields and elements are all collected. An object
  schema is in zod's default mode: a key the shape does not declare is dropped from the
  output, the declared keys come out in the order of the shape, and a declared key the
  input lacks stays absent when its schema accepts \<^verbatim>\<open>undefined\<close>.
\<close>

fun zparse :: "zschema \<Rightarrow> pathseg list \<Rightarrow> json \<Rightarrow> issue list \<times> json" where
  "zparse (ZString checks) p v =
     (case v of
        JStr s \<Rightarrow> (map (\<lambda>c. Issue (invalid_string (fst c)) p) (filter (\<lambda>c. \<not> snd c s) checks), v)
      | _ \<Rightarrow> ([Issue (invalid_type ''string'' (parsedType v)) p], v))"
| "zparse ZNumber p v =
     (case v of
        JNum _ \<Rightarrow> ([], v)
      | _ \<Rightarrow> ([Issue (invalid_type ''number'' (parsedType v)) p], v))"
| "zparse (ZEnum vs) p v =
     (case v of
        JStr s \<Rightarrow> (if s \<in> set vs then ([], v) else ([Issue (invalid_enum_value vs s) p], v))
      | _ \<Rightarrow> ([Issue (invalid_type (joinValues vs) (parsedType v)) p], v))"
| "zparse ZUnknown p v = ([], v)"
| "zparse (ZOptional s) p v = zparse s p v"
| "zparse (ZBranded s) p v = zparse s p v"
| "zparse (ZArray s) p v =
     (case v of
        JArr xs \<Rightarrow>
          (let rs = map (\<lambda>(i, x). zparse s (p @ [Index i]) x) (indexed xs)
           in (concat (map fst rs), JArr (map snd rs)))
      | _ \<Rightarrow> ([Issue (invalid_type ''array'' (parsedType v)) p], v))"
| "zparse (ZObject shape) p v =
     (case v of
        JObj kvs \<Rightarrow>
          (let rs = map (\<lambda>(k, s).
                          (case map_of kvs k of
                             None \<Rightarrow>
                               (if acceptsUndefined s then ([], [])
                                else ([Issue (invalid_type (expectedType s) ''undefined'') (p @ [Key k])], []))
                           | Some x \<Rightarrow>
                               (let r = zparse s (p @ [Key k]) x in (fst r, [(k, snd r)]))))
                        shape
           in (concat (map fst rs), JObj (concat (map snd rs))))
      | _ \<Rightarrow> ([Issue (invalid_type ''object'' (parsedType v)) p], v))"

text \<open>
  \<^verbatim>\<open>schema.parse(data)\<close>: returns the output when no issue was found and throws a
  \<^verbatim>\<open>ZodError\<close> holding the issues otherwise.
\<close>

definition parse :: "zschema \<Rightarrow> json \<Rightarrow> issue list + json" where
  "parse S v = (case zparse S [] v of ([], out) \<Rightarrow> Inr out | (i # is, _) \<Rightarrow> Inl (i # is))"

section \<open>String formats\<close>

text \<open>
  The format tests behind \<^verbatim>\<open>z.string().uuid()\<close> and \<^verbatim>\<open>z.string().datetime()\<close> are
  regular expressions of zod; the ones of zod 3.22 are written out. A character class
  stands for one character of the input.
\<close>

datatype cls = Hex | Digit | Lit char

fun inClass :: "cls \<Rightarrow> char \<Rightarrow> bool" where
  "inClass Hex c = (c \<in> set ''0123456789abcdefABCDEF'')"
| "inClass Digit c = (c \<in> set ''0123456789'')"
| "inClass (Lit d) c = (c = d)"

fun matchFixed :: "cls list \<Rightarrow> string \<Rightarrow> bool" where
  "matchFixed [] [] = True"
| "matchFixed (k # ks) (c # cs) = (inClass k c \<and> matchFixed ks cs)"
| "matchFixed _ _ = False"

text \<open>\<^verbatim>\<open>/^[0-9a-fA-F]{8}\b-[0-9a-fA-F]{4}\b-[0-9a-fA-F]{4}\b-[0-9a-fA-F]{4}\b-[0-9a-fA-F]{12}$/i\<close>\<close>

definition uuidRegex :: "string \<Rightarrow> bool" where
  "uuidRegex s =
     matchFixed (replicate 8 Hex @ [Lit CHR ''-''] @ replicate 4 Hex @ [Lit CHR ''-''] @
                 replicate 4 Hex @ [Lit CHR ''-''] @ replicate 4 Hex @ [Lit CHR ''-''] @
                 replicate 12 Hex) s"

text \<open>\<^verbatim>\<open>/^\d{4}-\d{2}-\d{2}T\d{2}:\d{2}:\d{2}(\.\d+)?Z$/\<close>\<close>

definition datetimeRegex :: "string \<Rightarrow> bool" where
  "datetimeRegex s =
     (matchFixed (replicate 4 Digit @ [Lit CHR ''-''] @ replicate 2 Digit @ [Lit CHR ''-''] @
                  replicate 2 Digit @ [Lit CHR ''T''] @ replicate 2 Digit @ [Lit CHR '':''] @
                  replicate 2 Digit @ [Lit CHR '':''] @ replicate 2 Digit) (take 19 s)
      \<and> (case drop 19 s of
            [z] \<Rightarrow> z = CHR ''Z''
          | dot # ds \<Rightarrow>
              dot = CHR ''.'' \<and> butlast ds \<noteq> [] \<and> list_all (inClass Digit) (butlast ds)
              \<and> last ds = CHR ''Z''
          | [] \<Rightarrow> False))"

definition uuid :: "string \<times> (string \<Rightarrow> bool)" where
  "uuid = (''uuid'', uuidRegex)"

definition datetime :: "string \<times> (string \<Rightarrow> bool)" where
  "datetime = (''datetime'', datetimeRegex)"

text \<open>
  \<^verbatim>\<open>z.string().url()\<close> accepts a string when the platform's \<^verbatim>\<open>new URL(s)\<close> does not
  throw. That parser belongs to the platform and is a parameter here.
\<close>

definition url_check :: "(string \<Rightarrow> bool) \<Rightarrow> string \<times> (string \<Rightarrow> bool)" where
  "url_check newURL = (''url'', newURL)"

section \<open>lib/env.ts\<close>

definition envSchema :: "(string \<Rightarrow> bool) \<Rightarrow> zschema" where
  "envSchema newURL =
     ZObject [(''NODE_ENV'', ZEnum [''development'', ''test'', ''production'']),
              (''NEXT_PUBLIC_STRAPI_URL'', ZString [url_check newURL]),
              (''STRAPI_API_TOKEN'', ZOptional (ZString []))]"

text \<open>\<^verbatim>\<open>process.env\<close>: the variables that are set, each with a string value.\<close>

type_synonym process_env = "(string \<times> string) list"

definition processEnv :: "process_env \<Rightarrow> json" where
  "processEnv penv = JObj (map (\<lambda>(k, v). (k, JStr v)) penv)"

text \<open>The type \<^verbatim>\<open>z.infer<typeof envSchema>\<close> of the exported constant \<^verbatim>\<open>env\<close>.\<close>

record Env =
  NODE_ENV :: string
  NEXT_PUBLIC_STRAPI_URL :: string
  STRAPI_API_TOKEN :: "string option"

definition strProp :: "json \<Rightarrow> string \<Rightarrow> string option" where
  "strProp v k =
     (case v of
        JObj kvs \<Rightarrow> (case map_of kvs k of Some (JStr s) \<Rightarrow> Some s | _ \<Rightarrow> None)
      | _ \<Rightarrow> None)"

section \<open>Errors, requests and responses\<close>

text \<open>
  What can be thrown: the class \<^verbatim>\<open>StrapiError\<close> of \<^verbatim>\<open>lib/strapi.ts\<close> with its
  message, status and optional details; the error of \<^verbatim>\<open>schema.parse\<close>; the plain
  \<^verbatim>\<open>Error\<close> of \<^verbatim>\<open>fetchAPI\<close>; the rejection of \<^verbatim>\<open>response.json()\<close> on a body
  that is not JSON; and the rejection of \<^verbatim>\<open>fetch\<close> when no response was obtained.
\<close>

datatype js_error =
    StrapiError string nat "js_error option"
  | ZodError "issue list"
  | Error string
  | SyntaxError
  | TypeError string

text \<open>
  \<^verbatim>\<open>export const env = envSchema.parse(process.env)\<close>. The parsed object is read
  through its declared type; the last branch is the one the type excludes.
\<close>

definition env :: "(string \<Rightarrow> bool) \<Rightarrow> process_env \<Rightarrow> js_error + Env" where
  "env newURL penv =
     (case parse (envSchema newURL) (processEnv penv) of
        Inl issues \<Rightarrow> Inl (ZodError issues)
      | Inr v \<Rightarrow>
          (case (strProp v ''NODE_ENV'', strProp v ''NEXT_PUBLIC_STRAPI_URL'') of
             (Some m, Some u) \<Rightarrow>
               Inr \<lparr>NODE_ENV = m, NEXT_PUBLIC_STRAPI_URL = u,
                    STRAPI_API_TOKEN = strProp v ''STRAPI_API_TOKEN''\<rparr>
           | _ \<Rightarrow> Inl (ZodError [])))"

text \<open>
  The part of \<^verbatim>\<open>RequestInit\<close> the client sets or passes on (\<open>method'\<close> is its
  property \<^verbatim>\<open>method\<close>). \<^verbatim>\<open>None\<close> is a property the object does not have; the
  headers are in their plain-object form.
\<close>

record RequestInit =
  method' :: "string option"
  headers :: "(string \<times> string) list option"
  body :: "string option"

record request =
  url :: string
  init :: RequestInit

text \<open>
  A response: \<open>jsonBody\<close> is the value \<^verbatim>\<open>response.json()\<close> resolves to, and
  \<open>None\<close> when the body is not JSON and \<^verbatim>\<open>response.json()\<close> rejects.
\<close>

record response =
  status :: nat
  statusText :: string
  jsonBody :: "json option"

text \<open>\<^verbatim>\<open>response.ok\<close> is true for the statuses 200 to 299.\<close>

definition ok :: "response \<Rightarrow> bool" where
  "ok r = (200 \<le> status r \<and> status r \<le> 299)"

text \<open>\<^verbatim>\<open>fetch\<close> rejects when no response was obtained and resolves to a response otherwise.\<close>

datatype fetch_outcome = Rejected string | Resolved response

text \<open>The method of the request \<^verbatim>\<open>fetch\<close> sends: \<^verbatim>\<open>GET\<close> unless the init names one.\<close>

definition requestMethod :: "request \<Rightarrow> string" where
  "requestMethod r = (case method' (init r) of None \<Rightarrow> ''GET'' | Some m \<Rightarrow> m)"

datatype log = ConsoleError string "js_error option"

text \<open>
  What one call did: the value it returned or the error it threw, the requests it handed
  to \<^verbatim>\<open>fetch\<close> in order, and the records it wrote to the console in order.
\<close>

record run =
  result :: "js_error + json"
  requests :: "request list"
  console :: "log list"

section \<open>Object spread\<close>

fun assign :: "string \<Rightarrow> 'v \<Rightarrow> (string \<times> 'v) list \<Rightarrow> (string \<times> 'v) list" where
  "assign k v [] = [(k, v)]"
| "assign k v ((k', v') # kvs) = (if k' = k then (k, v) # kvs else (k', v') # assign k v kvs)"

text \<open>\<^verbatim>\<open>{...target, ...source}\<close>: the properties of the source are set in order.\<close>

definition spread :: "(string \<times> 'v) list \<Rightarrow> (string \<times> 'v) list \<Rightarrow> (string \<times> 'v) list" where
  "spread target source = fold (\<lambda>(k, v). assign k v) source target"

text \<open>The same on the three properties of an init: a property of the source wins.\<close>

definition spreadInit :: "RequestInit \<Rightarrow> RequestInit \<Rightarrow> RequestInit" where
  "spreadInit target source =
     \<lparr>method' = (case method' source of None \<Rightarrow> method' target | Some m \<Rightarrow> Some m),
      headers = (case headers source of None \<Rightarrow> headers target | Some h \<Rightarrow> Some h),
      body = (case body source of None \<Rightarrow> body target | Some b \<Rightarrow> Some b)\<rparr>"

definition noOptions :: RequestInit where
  "noOptions = \<lparr>method' = None, headers = None, body = None\<rparr>"

section \<open>types/strapi.ts\<close>

definition ContentIdSchema :: zschema where
  "ContentIdSchema = ZBranded (ZString [uuid])"

definition articleSchema :: zschema where
  "articleSchema =
     ZObject [(''id'', ContentIdSchema),
              (''attributes'',
               ZObject [(''title'', ZString []),
                        (''content'', ZString []),
                        (''slug'', ZString []),
                        (''publishedAt'', ZString [datetime]),
                        (''createdAt'', ZString [datetime]),
                        (''updatedAt'', ZString [datetime])])]"

definition strapiCollectionSchema :: "zschema \<Rightarrow> zschema" where
  "strapiCollectionSchema itemSchema =
     ZObject [(''data'', ZArray itemSchema),
              (''meta'',
               ZObject [(''pagination'',
                         ZObject [(''page'', ZNumber),
                                  (''pageSize'', ZNumber),
                                  (''pageCount'', ZNumber),
                                  (''total'', ZNumber)])])]"

definition strapiSingleSchema :: "zschema \<Rightarrow> zschema" where
  "strapiSingleSchema itemSchema =
     ZObject [(''data'', itemSchema), (''meta'', ZObject [])]"

section \<open>lib/strapi.ts: the validating client\<close>

text \<open>
  \<^verbatim>\<open>...(env.STRAPI_API_TOKEN && { Authorization: ... })\<close>: an absent token and the
  empty string are falsy and spread to nothing.
\<close>

definition tokenHeaders :: "Env \<Rightarrow> (string \<times> string) list" where
  "tokenHeaders e =
     (case STRAPI_API_TOKEN e of
        None \<Rightarrow> []
      | Some t \<Rightarrow> if t = [] then [] else [(''Authorization'', ''Bearer '' @ t)])"

text \<open>
  The second argument of \<^verbatim>\<open>fetch\<close>: the object literal sets \<^verbatim>\<open>headers\<close> first and
  spreads \<^verbatim>\<open>options\<close> after it. \<^verbatim>\<open>...options.headers\<close> spreads nothing when the
  options have no headers.
\<close>

definition strapiInit :: "Env \<Rightarrow> RequestInit \<Rightarrow> RequestInit" where
  "strapiInit e options =
     spreadInit
       \<lparr>method' = None,
        headers = Some (spread (spread [(''Content-Type'', ''application/json'')] (tokenHeaders e))
                               (case headers options of None \<Rightarrow> [] | Some h \<Rightarrow> h)),
        body = None\<rparr>
       options"

definition strapiRequest :: "Env \<Rightarrow> string \<Rightarrow> RequestInit \<Rightarrow> request" where
  "strapiRequest e path' options =
     \<lparr>url = NEXT_PUBLIC_STRAPI_URL e @ ''/api'' @ path', init = strapiInit e options\<rparr>"

text \<open>
  \<^verbatim>\<open>fetchFromStrapi(path, schema, options)\<close>, with the imported \<^verbatim>\<open>env\<close> and the
  network as arguments. A rejected \<^verbatim>\<open>fetch\<close> and a rejected \<^verbatim>\<open>response.json()\<close>
  are outside the \<^verbatim>\<open>try\<close> block and leave the function as they are.
\<close>

definition fetchFromStrapi ::
  "Env \<Rightarrow> (request \<Rightarrow> fetch_outcome) \<Rightarrow> string \<Rightarrow> zschema \<Rightarrow> RequestInit \<Rightarrow> run" where
  "fetchFromStrapi e network path' schema options =
     (let req = strapiRequest e path' options in
      \<lparr>result =
         (case network req of
            Rejected reason \<Rightarrow> Inl (TypeError reason)
          | Resolved response \<Rightarrow>
              if \<not> ok response then
                Inl (StrapiError (''Strapi API error: '' @ statusText response) (status response) None)
              else
                (case jsonBody response of
                   None \<Rightarrow> Inl SyntaxError
                 | Some rawData \<Rightarrow>
                     (case parse schema rawData of
                        Inr v \<Rightarrow> Inr v
                      | Inl issues \<Rightarrow>
                          Inl (StrapiError ''Invalid data received from Strapi'' 500
                                 (Some (ZodError issues)))))),
       requests = [req],
       console = []\<rparr>)"

definition getArticles :: "Env \<Rightarrow> (request \<Rightarrow> fetch_outcome) \<Rightarrow> run" where
  "getArticles e network =
     fetchFromStrapi e network ''/articles?populate=*'' (strapiCollectionSchema articleSchema) noOptions"

text \<open>
  \<^verbatim>\<open>lib/strapi.ts\<close> starts with \<^verbatim>\<open>import { env } from './env'\<close>: the module
  \<^verbatim>\<open>lib/env.ts\<close> is evaluated first, and when \<^verbatim>\<open>envSchema.parse\<close> throws there the
  importing module is never evaluated and none of its functions runs.
\<close>

definition importing :: "(string \<Rightarrow> bool) \<Rightarrow> process_env \<Rightarrow> (Env \<Rightarrow> run) \<Rightarrow> run" where
  "importing newURL penv call =
     (case env newURL penv of
        Inl err \<Rightarrow> \<lparr>result = Inl err, requests = [], console = []\<rparr>
      | Inr e \<Rightarrow> call e)"

section \<open>frontend/lib/strapi.ts: the helper without validation\<close>

text \<open>\<^verbatim>\<open>String(n)\<close> for a status code.\<close>

fun decimal :: "nat \<Rightarrow> string" where
  "decimal n =
     (if n < 10 then [char_of (48 + n)]
      else decimal (n div 10) @ [char_of (48 + n mod 10)])"

text \<open>
  \<^verbatim>\<open>process.env.NEXT_PUBLIC_STRAPI_API_URL || 'http://localhost:1337'\<close>: an unset
  variable and the empty string are falsy.
\<close>

definition STRAPI_URL :: "process_env \<Rightarrow> string" where
  "STRAPI_URL penv =
     (case map_of penv ''NEXT_PUBLIC_STRAPI_API_URL'' of
        None \<Rightarrow> ''http://localhost:1337''
      | Some u \<Rightarrow> if u = [] then ''http://localhost:1337'' else u)"

definition mergedOptions :: "RequestInit \<Rightarrow> RequestInit" where
  "mergedOptions options =
     spreadInit
       \<lparr>method' = None, headers = Some [(''Content-Type'', ''application/json'')], body = None\<rparr>
       options"

definition requestUrl :: "process_env \<Rightarrow> string \<Rightarrow> string" where
  "requestUrl penv path' = STRAPI_URL penv @ ''/api'' @ path'"

text \<open>
  \<^verbatim>\<open>fetchAPI(path, options)\<close>. The whole body is inside \<^verbatim>\<open>try\<close>: the \<^verbatim>\<open>catch\<close>
  logs whatever was thrown, also the error thrown for a status that is not ok, and
  throws it again.
\<close>

definition fetchAPI ::
  "process_env \<Rightarrow> (request \<Rightarrow> fetch_outcome) \<Rightarrow> string \<Rightarrow> RequestInit \<Rightarrow> run" where
  "fetchAPI penv network path' options =
     (let req = \<lparr>url = requestUrl penv path', init = mergedOptions options\<rparr>;
          caught = (\<lambda>logged err.
                      \<lparr>result = Inl err, requests = [req],
                       console = logged @ [ConsoleError ''Strapi API fetch error:'' (Some err)]\<rparr>)
      in case network req of
           Rejected reason \<Rightarrow> caught [] (TypeError reason)
         | Resolved response \<Rightarrow>
             if \<not> ok response then
               caught [ConsoleError (''Strapi API error: '' @ decimal (status response) @ '' '' @
                                     statusText response) None]
                      (Error (''Strapi API error: '' @ decimal (status response)))
             else
               (case jsonBody response of
                  None \<Rightarrow> caught [] SyntaxError
                | Some data \<Rightarrow> \<lparr>result = Inr data, requests = [req], console = []\<rparr>))"

section \<open>What the specification speaks of\<close>

text \<open>
  The part of a body that a schema declares: the body with the object keys removed that
  the schema does not name, the declared keys in the order of the schema, and every
  other value as it is.
\<close>

fun declaredPart :: "zschema \<Rightarrow> json \<Rightarrow> json" where
  "declaredPart (ZOptional s) v = declaredPart s v"
| "declaredPart (ZBranded s) v = declaredPart s v"
| "declaredPart (ZArray s) (JArr xs) = JArr (map (declaredPart s) xs)"
| "declaredPart (ZObject shape) (JObj kvs) =
     JObj (concat (map (\<lambda>(k, s). case map_of kvs k of
                                      None \<Rightarrow> []
                                    | Some x \<Rightarrow> [(k, declaredPart s x)]) shape))"
| "declaredPart _ v = v"

text \<open>The collection envelope of the Strapi REST API.\<close>

definition collectionEnvelope :: "json list \<Rightarrow> rat \<Rightarrow> rat \<Rightarrow> rat \<Rightarrow> rat \<Rightarrow> json" where
  "collectionEnvelope items page pageSize pageCount totalCount =
     JObj [(''data'', JArr items),
           (''meta'',
            JObj [(''pagination'',
                   JObj [(''page'', JNum page),
                         (''pageSize'', JNum pageSize),
                         (''pageCount'', JNum pageCount),
                         (''total'', JNum totalCount)])])]"

text \<open>
  The consistency the specification asks of an envelope with \<open>n\<close> items:
  \<open>page * pageSize\<close> bounds \<open>n\<close>, and \<open>pageCount\<close> is the ceiling of
  \<open>total / pageSize\<close>.
\<close>

definition paginationConsistent :: "nat \<Rightarrow> rat \<Rightarrow> rat \<Rightarrow> rat \<Rightarrow> rat \<Rightarrow> bool" where
  "paginationConsistent n page pageSize pageCount totalCount =
     (of_nat n \<le> page * pageSize \<and> pageCount = of_int \<lceil>totalCount / pageSize\<rceil>)"

section \<open>Example data\<close>

text \<open>The article of the specification's scenario, with room for further attributes.\<close>

definition articleWith :: "(string \<times> json) list \<Rightarrow> json" where
  "articleWith extra =
     JObj [(''id'', JStr ''11111111-1111-1111-1111-111111111111''),
           (''attributes'',
            JObj ([(''title'', JStr ''Hi''),
                   (''content'', JStr ''Body''),
                   (''slug'', JStr ''hi''),
                   (''publishedAt'', JStr ''2024-01-01T00:00:00.000Z''),
                   (''createdAt'', JStr ''2024-01-01T00:00:00.000Z''),
                   (''updatedAt'', JStr ''2024-01-01T00:00:00.000Z'')] @ extra))]"

definition scenarioBody :: json where
  "scenarioBody = collectionEnvelope [articleWith []] 1 25 1 1"

definition notUuidBody :: json where
  "notUuidBody = JObj [(''data'', JObj [(''id'', JStr ''not-a-uuid'')])]"

definition localEnv :: Env where
  "localEnv = \<lparr>NODE_ENV = ''production'', NEXT_PUBLIC_STRAPI_URL = ''http://localhost:1337'',
                STRAPI_API_TOKEN = Some ''s3cret''\<rparr>"

text \<open>A network that answers every request with the same response.\<close>

definition respond :: "nat \<Rightarrow> string \<Rightarrow> json option \<Rightarrow> request \<Rightarrow> fetch_outcome" where
  "respond st txt b = (\<lambda>_. Resolved \<lparr>status = st, statusText = txt, jsonBody = b\<rparr>)"

text \<open>A network that knows one URL only and is unreachable for every other.\<close>

definition respondAt :: "string \<Rightarrow> nat \<Rightarrow> string \<Rightarrow> json option \<Rightarrow> request \<Rightarrow> fetch_outcome" where
  "respondAt u st txt b =
     (\<lambda>q. if url q = u then Resolved \<lparr>status = st, statusText = txt, jsonBody = b\<rparr>
          else Rejected ''fetch failed'')"

section \<open>Facts about parsing\<close>

lemma parse_Inl_nonempty: "parse S v = Inl issues \<Longrightarrow> issues \<noteq> []"
  by (auto simp: parse_def split: prod.splits list.splits)

lemma parse_Inr: "parse S v = Inr out \<longleftrightarrow> zparse S [] v = ([], out)"
  by (auto simp: parse_def split: prod.splits list.splits)

lemma map_snd_indexed: "map snd (indexed xs) = xs"
  by (simp add: indexed_def)

lemma number_accepted: "fst (zparse ZNumber p v) = [] \<Longrightarrow> \<exists>a. v = JNum a"
  by (cases v) auto

lemma array_accepted: "fst (zparse (ZArray s) p v) = [] \<Longrightarrow> \<exists>xs. v = JArr xs"
  by (cases v) auto

lemma object_accepted: "fst (zparse (ZObject shape) p v) = [] \<Longrightarrow> \<exists>kvs. v = JObj kvs"
  by (cases v) auto

text \<open>An accepted object has every declared key whose schema does not take \<^verbatim>\<open>undefined\<close>.\<close>

lemma field_accepted:
  assumes "fst (zparse (ZObject shape) p (JObj kvs)) = []" and "(k, s) \<in> set shape"
    and "\<not> acceptsUndefined s"
  shows "\<exists>x. map_of kvs k = Some x \<and> fst (zparse s (p @ [Key k]) x) = []"
proof -
  from assms(1) have
    "\<forall>ks\<in>set shape.
       fst (case ks of (k, s) \<Rightarrow>
              (case map_of kvs k of
                 None \<Rightarrow> if acceptsUndefined s then ([], [])
                         else ([Issue (invalid_type (expectedType s) ''undefined'') (p @ [Key k])], [])
               | Some x \<Rightarrow> let r = zparse s (p @ [Key k]) x in (fst r, [(k, snd r)]))) = []"
    by simp
  from bspec [OF this assms(2)] assms(3) show ?thesis
    by (cases "map_of kvs k") (simp_all add: Let_def)
qed

subsection \<open>The output of a schema is the declared part of its input\<close>

lemma zparse_output_string: "snd (zparse (ZString cs) p v) = declaredPart (ZString cs) v"
  by (cases v) simp_all

lemma zparse_output_number: "snd (zparse ZNumber p v) = declaredPart ZNumber v"
  by (cases v) simp_all

lemma zparse_output_enum: "snd (zparse (ZEnum vs) p v) = declaredPart (ZEnum vs) v"
  by (cases v) simp_all

lemma zparse_output_array:
  assumes "\<And>i x. snd (zparse s (p @ [Index i]) x) = declaredPart s x"
  shows "snd (zparse (ZArray s) p v) = declaredPart (ZArray s) v"
proof (cases v)
  case (JArr xs)
  have "map (\<lambda>x. snd (case x of (i, x) \<Rightarrow> zparse s (p @ [Index i]) x)) (indexed xs)
          = map (\<lambda>x. declaredPart s (snd x)) (indexed xs)"
    using assms by (simp add: case_prod_unfold)
  also have "\<dots> = map (declaredPart s) (map snd (indexed xs))"
    by simp
  finally show ?thesis using JArr by (simp add: comp_def map_snd_indexed)
qed simp_all

lemma zparse_output_object:
  assumes "\<And>k s q x. (k, s) \<in> set shape \<Longrightarrow> snd (zparse s q x) = declaredPart s x"
  shows "snd (zparse (ZObject shape) p v) = declaredPart (ZObject shape) v"
proof (cases v)
  case (JObj kvs)
  have field: "snd (case map_of kvs k of
                   None \<Rightarrow> if acceptsUndefined s then ([], [])
                           else ([Issue (invalid_type (expectedType s) ''undefined'') (p @ [Key k])], [])
                 | Some x \<Rightarrow> let r = zparse s (p @ [Key k]) x in (fst r, [(k, snd r)]))
            = (case map_of kvs k of None \<Rightarrow> [] | Some x \<Rightarrow> [(k, declaredPart s x)])"
    if "(k, s) \<in> set shape" for k s
    using assms [OF that] by (simp add: Let_def split: option.splits)
  have eq: "map (\<lambda>x. snd (case x of (k, s) \<Rightarrow>
                   (case map_of kvs k of
                   None \<Rightarrow> if acceptsUndefined s then ([], [])
                           else ([Issue (invalid_type (expectedType s) ''undefined'') (p @ [Key k])], [])
                 | Some x \<Rightarrow> let r = zparse s (p @ [Key k]) x in (fst r, [(k, snd r)])))) shape
       = map (\<lambda>(k, s). case map_of kvs k of None \<Rightarrow> [] | Some x \<Rightarrow> [(k, declaredPart s x)]) shape"
    by (rule map_cong [OF refl]) (use field in \<open>simp add: case_prod_unfold\<close>)
  show ?thesis unfolding JObj by (simp add: comp_def eq)
qed simp_all

lemma zparse_output: "snd (zparse S p v) = declaredPart S v"
proof (induction S arbitrary: p v)
  case (ZString cs) show ?case by (rule zparse_output_string)
next
  case ZNumber show ?case by (rule zparse_output_number)
next
  case (ZEnum vs) show ?case by (rule zparse_output_enum)
next
  case ZUnknown show ?case by (cases v) simp_all
next
  case (ZOptional S) then show ?case by simp
next
  case (ZBranded S) then show ?case by simp
next
  case (ZArray S) then show ?case by (intro zparse_output_array)
next
  case (ZObject shape)
  show ?case
  proof (rule zparse_output_object)
    fix k s q x assume "(k, s) \<in> set shape"
    then show "snd (zparse s q x) = declaredPart s x"
      using ZObject.IH [of "(k, s)" s q x] by simp
  qed
qed

lemma parse_declaredPart: "parse S v = Inr out \<Longrightarrow> out = declaredPart S v"
  using zparse_output [of S "[]" v] by (simp add: parse_Inr)

subsection \<open>An accepted collection envelope\<close>

lemma envelope_accepted:
  assumes "zparse (strapiCollectionSchema S) [] v = ([], out)"
  shows "\<exists>items a b c d. out = collectionEnvelope items a b c d"
proof -
  let ?pg = "[(''page'', ZNumber), (''pageSize'', ZNumber), (''pageCount'', ZNumber), (''total'', ZNumber)]"
  let ?meta = "[(''pagination'', ZObject ?pg)]"
  let ?top = "[(''data'', ZArray S), (''meta'', ZObject ?meta)]"
  let ?q = "([] @ [Key ''meta'']) @ [Key ''pagination'']"
  have S: "strapiCollectionSchema S = ZObject ?top"
    by (simp add: strapiCollectionSchema_def)
  from assms have ok: "fst (zparse (ZObject ?top) [] v) = []"
    and out: "out = declaredPart (ZObject ?top) v"
    using zparse_output [of "ZObject ?top" "[]" v] by (simp_all add: S)
  from ok obtain kvs where v: "v = JObj kvs"
    using object_accepted by blast
  from ok v obtain x where x: "map_of kvs ''data'' = Some x"
      "fst (zparse (ZArray S) ([] @ [Key ''data'']) x) = []"
    using field_accepted [of ?top "[]" kvs "''data''" "ZArray S"] by auto
  then obtain xs where xs: "x = JArr xs"
    using array_accepted by blast
  from ok v obtain m where m: "map_of kvs ''meta'' = Some m"
      "fst (zparse (ZObject ?meta) ([] @ [Key ''meta'']) m) = []"
    using field_accepted [of ?top "[]" kvs "''meta''" "ZObject ?meta"] by auto
  then obtain mkvs where mk: "m = JObj mkvs"
    using object_accepted by blast
  from m(2) mk obtain g where g: "map_of mkvs ''pagination'' = Some g"
      "fst (zparse (ZObject ?pg) ?q g) = []"
    using field_accepted [of ?meta "[] @ [Key ''meta'']" mkvs "''pagination''" "ZObject ?pg"] by auto
  then obtain gkvs where gk: "g = JObj gkvs"
    using object_accepted by blast
  from g(2) gk obtain a where a: "map_of gkvs ''page'' = Some (JNum a)"
    using field_accepted [of ?pg ?q gkvs "''page''" ZNumber] number_accepted by fastforce
  from g(2) gk obtain b where b: "map_of gkvs ''pageSize'' = Some (JNum b)"
    using field_accepted [of ?pg ?q gkvs "''pageSize''" ZNumber] number_accepted by fastforce
  from g(2) gk obtain c where c: "map_of gkvs ''pageCount'' = Some (JNum c)"
    using field_accepted [of ?pg ?q gkvs "''pageCount''" ZNumber] number_accepted by fastforce
  from g(2) gk obtain d where d: "map_of gkvs ''total'' = Some (JNum d)"
    using field_accepted [of ?pg ?q gkvs "''total''" ZNumber] number_accepted by fastforce
  show ?thesis
    unfolding out v collectionEnvelope_def by (simp add: x(1) xs m(1) mk g(1) gk a b c d)
qed

subsection \<open>The bodies of the scenarios\<close>

lemma scenario_accepted:
  "parse (strapiCollectionSchema articleSchema) scenarioBody = Inr scenarioBody"
  by code_simp

lemma notUuid_rejected:
  "parse (strapiSingleSchema articleSchema) notUuidBody =
     Inl [Issue (invalid_string ''uuid'') [Key ''data'', Key ''id''],
          Issue (invalid_type ''object'' ''undefined'') [Key ''data'', Key ''attributes''],
          Issue (invalid_type ''object'' ''undefined'') [Key ''meta'']]"
  by code_simp

lemma map_of_processEnv:
  "map_of (map (\<lambda>(k, v). (k, JStr v)) penv) k = map_option JStr (map_of penv k)"
  by (induction penv) auto

text \<open>
  The typed reading of the parsed environment never meets a value outside its type: every
  error of \<^verbatim>\<open>env\<close> is a zod error with an issue.
\<close>

lemma env_error_nonempty: "env newURL penv = Inl (ZodError issues) \<Longrightarrow> issues \<noteq> []"
  by (auto simp add: env_def parse_def envSchema_def processEnv_def map_of_processEnv
        url_check_def strProp_def Let_def split: option.splits prod.splits list.splits if_splits)

section \<open>The claims\<close>

subsection \<open>C1\<close>

text \<open>
  A body that is not JSON at all leaves \<^verbatim>\<open>fetchFromStrapi\<close> as the syntax error of
  \<^verbatim>\<open>response.json()\<close>, which is no validation error and names no field.
\<close>

theorem fetchFromStrapi_malformed_body:
  "result (fetchFromStrapi localEnv (respond 200 ''OK'' None) ''/articles/7''
             (strapiSingleSchema articleSchema) noOptions) = Inl SyntaxError"
  by (simp add: fetchFromStrapi_def Let_def respond_def ok_def)

text \<open>
  C1, amended. For a response with a successful status: a body that is not JSON or that
  the schema rejects never yields a returned value; a JSON body that the schema rejects
  fails with a \<^verbatim>\<open>StrapiError\<close> of status 500 whose details are the zod error with
  the non-empty list of issues found, each with the path of its field; and the body
  \<^verbatim>\<open>{"data":{"id":"not-a-uuid"}}\<close> against the single-item schema of an article fails
  with an issue at \<^verbatim>\<open>data.id\<close>. Whatever value is returned is the output of the
  schema on the body of a successful response.
\<close>

theorem fetchFromStrapi_validation_error:
  "(network (strapiRequest e p options) = Resolved r \<and> ok r \<longrightarrow>
      (jsonBody r = None \<longrightarrow> isl (result (fetchFromStrapi e network p S options)))
      \<and> (\<forall>raw. jsonBody r = Some raw \<and> isl (parse S raw) \<longrightarrow>
            (\<exists>issues. parse S raw = Inl issues \<and> issues \<noteq> []
               \<and> result (fetchFromStrapi e network p S options) =
                   Inl (StrapiError ''Invalid data received from Strapi'' 500 (Some (ZodError issues)))))
      \<and> (jsonBody r = Some notUuidBody \<longrightarrow>
            result (fetchFromStrapi e network p (strapiSingleSchema articleSchema) options) =
              Inl (StrapiError ''Invalid data received from Strapi'' 500
                    (Some (ZodError
                       [Issue (invalid_string ''uuid'') [Key ''data'', Key ''id''],
                        Issue (invalid_type ''object'' ''undefined'') [Key ''data'', Key ''attributes''],
                        Issue (invalid_type ''object'' ''undefined'') [Key ''meta'']])))))
   \<and> (\<forall>v. result (fetchFromStrapi e network p S options) = Inr v \<longrightarrow>
         (\<exists>r raw. network (strapiRequest e p options) = Resolved r \<and> ok r
                   \<and> jsonBody r = Some raw \<and> parse S raw = Inr v))"
  using notUuid_rejected
  by (auto simp add: fetchFromStrapi_def Let_def dest: parse_Inl_nonempty
      split: fetch_outcome.splits option.splits sum.splits if_splits)

theorem fetchFromStrapi_validation_error_witness:
  "respond 200 ''OK'' (Some notUuidBody) (strapiRequest localEnv ''/articles/7'' noOptions) =
     Resolved \<lparr>status = 200, statusText = ''OK'', jsonBody = Some notUuidBody\<rparr>
   \<and> ok \<lparr>status = 200, statusText = ''OK'', jsonBody = Some notUuidBody\<rparr>
   \<and> isl (parse (strapiSingleSchema articleSchema) notUuidBody)
   \<and> result (fetchFromStrapi localEnv (respond 200 ''OK'' (Some notUuidBody)) ''/articles/7''
               (strapiSingleSchema articleSchema) noOptions) =
       Inl (StrapiError ''Invalid data received from Strapi'' 500
             (Some (ZodError
                [Issue (invalid_string ''uuid'') [Key ''data'', Key ''id''],
                 Issue (invalid_type ''object'' ''undefined'') [Key ''data'', Key ''attributes''],
                 Issue (invalid_type ''object'' ''undefined'') [Key ''meta'']])))"
  using fetchFromStrapi_validation_error
    [where network = "respond 200 ''OK'' (Some notUuidBody)" and e = localEnv
       and p = "''/articles/7''" and options = noOptions
       and r = "\<lparr>status = 200, statusText = ''OK'', jsonBody = Some notUuidBody\<rparr>"
       and S = "strapiSingleSchema articleSchema"]
  by (simp add: respond_def ok_def notUuid_rejected)

subsection \<open>C2\<close>

text \<open>
  C2. When \<^verbatim>\<open>NODE_ENV\<close> is one of the three modes, \<^verbatim>\<open>NEXT_PUBLIC_STRAPI_URL\<close> is
  a string the URL parser accepts and \<^verbatim>\<open>STRAPI_API_TOKEN\<close> is absent or set,
  \<^verbatim>\<open>envSchema.parse(process.env)\<close> returns the configuration with exactly these three
  values. When one of the two required variables is missing it throws, the error names
  the variable, and a program that imports the configuration issues no request.
\<close>

theorem env_matches_or_fails:
  "(map_of penv ''NODE_ENV'' = Some m \<and> m \<in> set [''development'', ''test'', ''production'']
      \<and> map_of penv ''NEXT_PUBLIC_STRAPI_URL'' = Some u \<and> newURL u \<longrightarrow>
      env newURL penv =
        Inr \<lparr>NODE_ENV = m, NEXT_PUBLIC_STRAPI_URL = u,
             STRAPI_API_TOKEN = map_of penv ''STRAPI_API_TOKEN''\<rparr>)
   \<and> (map_of penv ''NEXT_PUBLIC_STRAPI_URL'' = None \<longrightarrow>
        (\<exists>issues. env newURL penv = Inl (ZodError issues)
           \<and> Issue (invalid_type ''string'' ''undefined'') [Key ''NEXT_PUBLIC_STRAPI_URL''] \<in> set issues)
        \<and> requests (importing newURL penv call) = [])
   \<and> (map_of penv ''NODE_ENV'' = None \<longrightarrow>
        (\<exists>issues. env newURL penv = Inl (ZodError issues)
           \<and> Issue (invalid_type (joinValues [''development'', ''test'', ''production'']) ''undefined'')
                [Key ''NODE_ENV''] \<in> set issues)
        \<and> requests (importing newURL penv call) = [])"
proof (intro conjI impI)
  assume "map_of penv ''NODE_ENV'' = Some m \<and> m \<in> set [''development'', ''test'', ''production'']
      \<and> map_of penv ''NEXT_PUBLIC_STRAPI_URL'' = Some u \<and> newURL u"
  then show "env newURL penv =
        Inr \<lparr>NODE_ENV = m, NEXT_PUBLIC_STRAPI_URL = u,
             STRAPI_API_TOKEN = map_of penv ''STRAPI_API_TOKEN''\<rparr>"
    by (auto simp add: env_def parse_def envSchema_def processEnv_def map_of_processEnv
        url_check_def strProp_def split: option.splits)
next
  assume none: "map_of penv ''NEXT_PUBLIC_STRAPI_URL'' = None"
  then show "\<exists>issues. env newURL penv = Inl (ZodError issues)
           \<and> Issue (invalid_type ''string'' ''undefined'') [Key ''NEXT_PUBLIC_STRAPI_URL''] \<in> set issues"
    by (auto simp add: env_def parse_def envSchema_def processEnv_def map_of_processEnv
        url_check_def strProp_def split: option.splits)
  then show "requests (importing newURL penv call) = []"
    by (auto simp add: importing_def)
next
  assume none: "map_of penv ''NODE_ENV'' = None"
  then show "\<exists>issues. env newURL penv = Inl (ZodError issues)
           \<and> Issue (invalid_type (joinValues [''development'', ''test'', ''production'']) ''undefined'')
                [Key ''NODE_ENV''] \<in> set issues"
    by (auto simp add: env_def parse_def envSchema_def processEnv_def map_of_processEnv
        url_check_def strProp_def split: option.splits)
  then show "requests (importing newURL penv call) = []"
    by (auto simp add: importing_def)
qed

theorem env_matches_or_fails_witness:
  "env (\<lambda>s. s = ''http://localhost:1337'')
       [(''NODE_ENV'', ''production''), (''NEXT_PUBLIC_STRAPI_URL'', ''http://localhost:1337''),
        (''STRAPI_API_TOKEN'', ''s3cret'')] = Inr localEnv
   \<and> isl (env (\<lambda>s. s = ''http://localhost:1337'') [(''NODE_ENV'', ''production'')])
   \<and> requests (importing (\<lambda>s. s = ''http://localhost:1337'') [(''NODE_ENV'', ''production'')]
                 (\<lambda>e. getArticles e (respond 200 ''OK'' (Some scenarioBody)))) = []
   \<and> isl (env (\<lambda>s. s = ''http://localhost:1337'')
             [(''NEXT_PUBLIC_STRAPI_URL'', ''http://localhost:1337'')])"
proof -
  let ?U = "\<lambda>s. s = ''http://localhost:1337''"
  let ?call = "\<lambda>e. getArticles e (respond 200 ''OK'' (Some scenarioBody))"
  have full: "env ?U [(''NODE_ENV'', ''production''), (''NEXT_PUBLIC_STRAPI_URL'', ''http://localhost:1337''),
                     (''STRAPI_API_TOKEN'', ''s3cret'')] = Inr localEnv"
    using env_matches_or_fails
      [where penv = "[(''NODE_ENV'', ''production''), (''NEXT_PUBLIC_STRAPI_URL'', ''http://localhost:1337''),
                      (''STRAPI_API_TOKEN'', ''s3cret'')]"
         and m = "''production''" and u = "''http://localhost:1337''" and newURL = ?U and call = ?call]
    by (simp add: localEnv_def)
  have no_url: "isl (env ?U [(''NODE_ENV'', ''production'')])
      \<and> requests (importing ?U [(''NODE_ENV'', ''production'')] ?call) = []"
    using env_matches_or_fails
      [where penv = "[(''NODE_ENV'', ''production'')]" and m = "''production''"
         and u = "''http://localhost:1337''" and newURL = ?U and call = ?call]
    by auto
  have no_mode: "isl (env ?U [(''NEXT_PUBLIC_STRAPI_URL'', ''http://localhost:1337'')])"
    using env_matches_or_fails
      [where penv = "[(''NEXT_PUBLIC_STRAPI_URL'', ''http://localhost:1337'')]" and m = "''production''"
         and u = "''http://localhost:1337''" and newURL = ?U and call = ?call]
    by auto
  from full no_url no_mode show ?thesis by simp
qed

subsection \<open>C3\<close>

text \<open>
  A body that the schema accepts and that carries one key more than the schema declares:
  the attribute \<^verbatim>\<open>locale\<close> of the article is gone from the value returned.
\<close>

theorem getArticles_drops_undeclared_key:
  "result (getArticles localEnv
             (respond 200 ''OK''
                (Some (collectionEnvelope [articleWith [(''locale'', JStr ''en'')]] 1 25 1 1))))
     = Inr (collectionEnvelope [articleWith []] 1 25 1 1)
   \<and> collectionEnvelope [articleWith []] 1 25 1 1
       \<noteq> collectionEnvelope [articleWith [(''locale'', JStr ''en'')]] 1 25 1 1"
proof -
  have "parse (strapiCollectionSchema articleSchema)
          (collectionEnvelope [articleWith [(''locale'', JStr ''en'')]] 1 25 1 1)
        = Inr (collectionEnvelope [articleWith []] 1 25 1 1)"
    by code_simp
  then show ?thesis
    by (simp add: getArticles_def fetchFromStrapi_def Let_def respond_def ok_def
        collectionEnvelope_def articleWith_def)
qed

text \<open>
  C3, amended. For every schema \<open>S\<close> and every body \<open>B\<close> that \<open>S\<close> accepts,
  \<^verbatim>\<open>fetchFromStrapi\<close> returns the declared part of \<open>B\<close>: \<open>B\<close> without the object
  keys that \<open>S\<close> does not declare, every remaining value unchanged. In the articles
  scenario, whose body carries the declared keys only, \<^verbatim>\<open>getArticles\<close> returns the
  body itself: that article and that pagination.
\<close>

theorem fetchFromStrapi_returns_declared_part:
  "(network (strapiRequest e p options) = Resolved r \<and> ok r \<and> jsonBody r = Some B
      \<and> \<not> isl (parse S B) \<longrightarrow>
      result (fetchFromStrapi e network p S options) = Inr (declaredPart S B))
   \<and> (network (strapiRequest e ''/articles?populate=*'' noOptions) = Resolved r \<and> ok r
      \<and> jsonBody r = Some scenarioBody \<longrightarrow>
      result (getArticles e network) = Inr (collectionEnvelope [articleWith []] 1 25 1 1))"
proof (intro conjI impI)
  assume a: "network (strapiRequest e p options) = Resolved r \<and> ok r \<and> jsonBody r = Some B
      \<and> \<not> isl (parse S B)"
  then obtain out where out: "parse S B = Inr out"
    by (cases "parse S B") auto
  then have "out = declaredPart S B"
    by (rule parse_declaredPart)
  with a out show "result (fetchFromStrapi e network p S options) = Inr (declaredPart S B)"
    by (simp add: fetchFromStrapi_def Let_def)
next
  assume "network (strapiRequest e ''/articles?populate=*'' noOptions) = Resolved r \<and> ok r
      \<and> jsonBody r = Some scenarioBody"
  then show "result (getArticles e network) = Inr (collectionEnvelope [articleWith []] 1 25 1 1)"
    using scenario_accepted
    by (simp add: getArticles_def fetchFromStrapi_def Let_def scenarioBody_def)
qed

theorem fetchFromStrapi_returns_declared_part_witness:
  "url (strapiRequest localEnv ''/articles?populate=*'' noOptions)
     = ''http://localhost:1337/api/articles?populate=*''
   \<and> ok \<lparr>status = 200, statusText = ''OK'', jsonBody = Some scenarioBody\<rparr>
   \<and> \<not> isl (parse (strapiCollectionSchema articleSchema) scenarioBody)
   \<and> declaredPart (strapiCollectionSchema articleSchema) scenarioBody = scenarioBody
   \<and> result (getArticles localEnv
        (respondAt ''http://localhost:1337/api/articles?populate=*'' 200 ''OK'' (Some scenarioBody)))
       = Inr (collectionEnvelope [articleWith []] 1 25 1 1)"
proof -
  let ?net = "respondAt ''http://localhost:1337/api/articles?populate=*'' 200 ''OK'' (Some scenarioBody)"
  let ?r = "\<lparr>status = 200, statusText = ''OK'', jsonBody = Some scenarioBody\<rparr>"
  have u: "url (strapiRequest localEnv ''/articles?populate=*'' noOptions)
     = ''http://localhost:1337/api/articles?populate=*''"
    by (simp add: strapiRequest_def localEnv_def)
  then have net: "?net (strapiRequest localEnv ''/articles?populate=*'' noOptions) = Resolved ?r"
    by (simp add: respondAt_def)
  have ok: "ok ?r" by (simp add: ok_def)
  have acc: "\<not> isl (parse (strapiCollectionSchema articleSchema) scenarioBody)"
    by (simp add: scenario_accepted)
  note inst = fetchFromStrapi_returns_declared_part
    [where network = ?net and e = localEnv and p = "''/articles?populate=*''" and options = noOptions
       and r = ?r and B = scenarioBody and S = "strapiCollectionSchema articleSchema"]
  from inst net ok acc have
    "result (fetchFromStrapi localEnv ?net ''/articles?populate=*'' (strapiCollectionSchema articleSchema) noOptions)
       = Inr (declaredPart (strapiCollectionSchema articleSchema) scenarioBody)"
    and "result (getArticles localEnv ?net) = Inr (collectionEnvelope [articleWith []] 1 25 1 1)"
    by simp_all
  moreover have "declaredPart (strapiCollectionSchema articleSchema) scenarioBody = scenarioBody"
    using parse_declaredPart [OF scenario_accepted] by simp
  ultimately show ?thesis using u ok acc by simp
qed

subsection \<open>C4\<close>

text \<open>
  C4. When the response has a status outside 200 to 299, \<^verbatim>\<open>fetchFromStrapi\<close> throws
  a \<^verbatim>\<open>StrapiError\<close> that carries the status code and, in its message, the status
  text; it has handed exactly one request to \<^verbatim>\<open>fetch\<close>.
\<close>

theorem fetchFromStrapi_non_success:
  assumes "network (strapiRequest e p options) = Resolved r" and "\<not> ok r"
  shows "result (fetchFromStrapi e network p S options) =
           Inl (StrapiError (''Strapi API error: '' @ statusText r) (status r) None)
         \<and> requests (fetchFromStrapi e network p S options) = [strapiRequest e p options]"
  using assms by (simp add: fetchFromStrapi_def Let_def)

theorem fetchFromStrapi_non_success_witness:
  "respond 404 ''Not Found'' None (strapiRequest localEnv ''/articles/7'' noOptions) =
     Resolved \<lparr>status = 404, statusText = ''Not Found'', jsonBody = None\<rparr>
   \<and> \<not> ok \<lparr>status = 404, statusText = ''Not Found'', jsonBody = None\<rparr>
   \<and> result (fetchFromStrapi localEnv (respond 404 ''Not Found'' None) ''/articles/7'' ZUnknown noOptions) =
       Inl (StrapiError ''Strapi API error: Not Found'' 404 None)
   \<and> length (requests (fetchFromStrapi localEnv (respond 404 ''Not Found'' None) ''/articles/7''
                        ZUnknown noOptions)) = 1"
  using fetchFromStrapi_non_success
    [where network = "respond 404 ''Not Found'' None" and e = localEnv and p = "''/articles/7''"
       and options = noOptions and S = ZUnknown
       and r = "\<lparr>status = 404, statusText = ''Not Found'', jsonBody = None\<rparr>"]
  by (simp add: respond_def ok_def)

subsection \<open>C5\<close>

text \<open>
  C5. Without headers in the options the request goes to the base URL followed by
  \<^verbatim>\<open>/api\<close> and the path, is a \<^verbatim>\<open>GET\<close>, and carries the content type and the
  bearer token. With headers in the options, \<^verbatim>\<open>...options\<close> replaces the merged
  headers by the headers of the options alone: the request carries neither
  \<^verbatim>\<open>Content-Type\<close> nor \<^verbatim>\<open>Authorization\<close>.
\<close>

theorem fetchFromStrapi_options_headers_replace_merged:
  "requests (fetchFromStrapi localEnv network ''/articles'' S noOptions) =
     [\<lparr>url = ''http://localhost:1337/api/articles'',
       init = \<lparr>method' = None,
               headers = Some [(''Content-Type'', ''application/json''),
                               (''Authorization'', ''Bearer s3cret'')],
               body = None\<rparr>\<rparr>]
   \<and> map requestMethod (requests (fetchFromStrapi localEnv network ''/articles'' S noOptions)) = [''GET'']
   \<and> requests (fetchFromStrapi localEnv network ''/contact-submissions'' S
        \<lparr>method' = Some ''POST'', headers = Some [(''X-Request-Id'', ''42'')], body = Some ''{}''\<rparr>) =
     [\<lparr>url = ''http://localhost:1337/api/contact-submissions'',
       init = \<lparr>method' = Some ''POST'', headers = Some [(''X-Request-Id'', ''42'')],
               body = Some ''{}''\<rparr>\<rparr>]"
  by (simp add: fetchFromStrapi_def Let_def strapiRequest_def strapiInit_def spreadInit_def
      spread_def tokenHeaders_def localEnv_def noOptions_def requestMethod_def)

subsection \<open>C6\<close>

text \<open>
  An envelope of two articles that says page 1 of size 1, 7 pages and 1 entry in total
  is accepted and returned as it is.
\<close>

theorem getArticles_inconsistent_pagination:
  "result (getArticles localEnv
             (respond 200 ''OK'' (Some (collectionEnvelope [articleWith [], articleWith []] 1 1 7 1))))
     = Inr (collectionEnvelope [articleWith [], articleWith []] 1 1 7 1)
   \<and> \<not> paginationConsistent (length [articleWith [], articleWith []]) 1 1 7 1"
proof -
  have "parse (strapiCollectionSchema articleSchema)
          (collectionEnvelope [articleWith [], articleWith []] 1 1 7 1)
        = Inr (collectionEnvelope [articleWith [], articleWith []] 1 1 7 1)"
    by code_simp
  then show ?thesis
    by (simp add: getArticles_def fetchFromStrapi_def Let_def respond_def ok_def
        paginationConsistent_def)
qed

text \<open>
  C6, amended. Every value that \<^verbatim>\<open>fetchFromStrapi\<close> returns under a collection schema
  is an envelope with an array of items and the four pagination fields \<^verbatim>\<open>page\<close>,
  \<^verbatim>\<open>pageSize\<close>, \<^verbatim>\<open>pageCount\<close> and \<^verbatim>\<open>total\<close>, each a number.
\<close>

theorem fetchFromStrapi_collection_envelope:
  assumes "result (fetchFromStrapi e network p (strapiCollectionSchema S) options) = Inr v"
  shows "\<exists>items a b c d. v = collectionEnvelope items a b c d"
proof -
  from assms obtain raw where "parse (strapiCollectionSchema S) raw = Inr v"
    by (auto simp add: fetchFromStrapi_def Let_def
        split: fetch_outcome.splits option.splits sum.splits if_splits)
  then show ?thesis
    using envelope_accepted by (simp add: parse_Inr)
qed

theorem fetchFromStrapi_collection_envelope_witness:
  "result (fetchFromStrapi localEnv (respond 200 ''OK'' (Some scenarioBody)) ''/articles?populate=*''
             (strapiCollectionSchema articleSchema) noOptions) = Inr scenarioBody
   \<and> (\<exists>items a b c d. scenarioBody = collectionEnvelope items a b c d)"
proof -
  have r: "result (fetchFromStrapi localEnv (respond 200 ''OK'' (Some scenarioBody)) ''/articles?populate=*''
             (strapiCollectionSchema articleSchema) noOptions) = Inr scenarioBody"
    by (simp add: fetchFromStrapi_def Let_def respond_def ok_def scenario_accepted)
  from fetchFromStrapi_collection_envelope [OF r] r show ?thesis by simp
qed

subsection \<open>C8\<close>

text \<open>
  A request of \<^verbatim>\<open>fetchFromStrapi\<close> that fails with status 404 writes no record.
\<close>

theorem fetchFromStrapi_failure_without_record:
  "isl (result (fetchFromStrapi localEnv (respond 404 ''Not Found'' None) ''/articles/7''
                  ZUnknown noOptions))
   \<and> console (fetchFromStrapi localEnv (respond 404 ''Not Found'' None) ''/articles/7''
                ZUnknown noOptions) = []"
  by (simp add: fetchFromStrapi_def Let_def respond_def ok_def)

text \<open>
  C8, amended. Each failure of a request of the helper \<^verbatim>\<open>fetchAPI\<close> writes to the
  console and then throws: no response gives one record holding the rejection, which
  is thrown; a status that is not ok gives a record with status and status text and a
  second one holding the \<^verbatim>\<open>Error\<close> thrown; a body that is not JSON gives one record
  holding the syntax error thrown. A successful request writes nothing; whenever
  \<^verbatim>\<open>fetchAPI\<close> throws, the last record holds the error thrown.
  \<^verbatim>\<open>fetchFromStrapi\<close> writes no record on any path.
\<close>

theorem fetchAPI_logs_failure:
  "(network \<lparr>url = requestUrl penv p, init = mergedOptions options\<rparr> = Rejected reason \<longrightarrow>
      result (fetchAPI penv network p options) = Inl (TypeError reason)
      \<and> console (fetchAPI penv network p options) =
          [ConsoleError ''Strapi API fetch error:'' (Some (TypeError reason))])
   \<and> (network \<lparr>url = requestUrl penv p, init = mergedOptions options\<rparr> = Resolved r \<and> \<not> ok r \<longrightarrow>
      result (fetchAPI penv network p options) =
        Inl (Error (''Strapi API error: '' @ decimal (status r)))
      \<and> console (fetchAPI penv network p options) =
          [ConsoleError (''Strapi API error: '' @ decimal (status r) @ '' '' @ statusText r) None,
           ConsoleError ''Strapi API fetch error:''
             (Some (Error (''Strapi API error: '' @ decimal (status r))))])
   \<and> (network \<lparr>url = requestUrl penv p, init = mergedOptions options\<rparr> = Resolved r \<and> ok r
        \<and> jsonBody r = None \<longrightarrow>
      result (fetchAPI penv network p options) = Inl SyntaxError
      \<and> console (fetchAPI penv network p options) =
          [ConsoleError ''Strapi API fetch error:'' (Some SyntaxError)])
   \<and> (network \<lparr>url = requestUrl penv p, init = mergedOptions options\<rparr> = Resolved r \<and> ok r
        \<and> jsonBody r = Some d \<longrightarrow>
      result (fetchAPI penv network p options) = Inr d
      \<and> console (fetchAPI penv network p options) = [])
   \<and> (isl (result (fetchAPI penv network p options)) \<longrightarrow>
      console (fetchAPI penv network p options) \<noteq> []
      \<and> last (console (fetchAPI penv network p options)) =
          ConsoleError ''Strapi API fetch error:''
            (Some (projl (result (fetchAPI penv network p options)))))
   \<and> console (fetchFromStrapi e network p S options) = []"
proof (intro conjI impI)
  show "console (fetchFromStrapi e network p S options) = []"
    by (simp add: fetchFromStrapi_def Let_def)
qed (auto simp add: fetchAPI_def Let_def simp del: decimal.simps
      split: fetch_outcome.splits option.splits if_splits)

theorem fetchAPI_logs_failure_witness:
  "fetchAPI [] (respondAt ''http://cms.internal/api/posts'' 200 ''OK'' None) ''/posts'' noOptions =
     \<lparr>result = Inl (TypeError ''fetch failed''),
      requests = [\<lparr>url = ''http://localhost:1337/api/posts'', init = mergedOptions noOptions\<rparr>],
      console = [ConsoleError ''Strapi API fetch error:'' (Some (TypeError ''fetch failed''))]\<rparr>
   \<and> \<not> ok \<lparr>status = 404, statusText = ''Not Found'', jsonBody = None\<rparr>
   \<and> fetchAPI [] (respond 404 ''Not Found'' None) ''/posts'' noOptions =
     \<lparr>result = Inl (Error ''Strapi API error: 404''),
      requests = [\<lparr>url = ''http://localhost:1337/api/posts'', init = mergedOptions noOptions\<rparr>],
      console = [ConsoleError ''Strapi API error: 404 Not Found'' None,
                 ConsoleError ''Strapi API fetch error:'' (Some (Error ''Strapi API error: 404''))]\<rparr>
   \<and> ok \<lparr>status = 200, statusText = ''OK'', jsonBody = None\<rparr>
   \<and> fetchAPI [] (respond 200 ''OK'' None) ''/posts'' noOptions =
     \<lparr>result = Inl SyntaxError,
      requests = [\<lparr>url = ''http://localhost:1337/api/posts'', init = mergedOptions noOptions\<rparr>],
      console = [ConsoleError ''Strapi API fetch error:'' (Some SyntaxError)]\<rparr>
   \<and> fetchAPI [] (respond 200 ''OK'' (Some scenarioBody)) ''/posts'' noOptions =
     \<lparr>result = Inr scenarioBody,
      requests = [\<lparr>url = ''http://localhost:1337/api/posts'', init = mergedOptions noOptions\<rparr>],
      console = []\<rparr>"
proof -
  let ?req = "\<lparr>url = requestUrl [] ''/posts'', init = mergedOptions noOptions\<rparr>"
  let ?down = "respondAt ''http://cms.internal/api/posts'' 200 ''OK'' None"
  have u: "requestUrl [] ''/posts'' = ''http://localhost:1337/api/posts''"
    by (simp add: requestUrl_def STRAPI_URL_def)
  have d: "decimal 404 = ''404''" by code_simp
  have reqs: "requests (fetchAPI [] network ''/posts'' noOptions) =
      [\<lparr>url = ''http://localhost:1337/api/posts'', init = mergedOptions noOptions\<rparr>]" for network
    by (simp add: fetchAPI_def Let_def u del: decimal.simps split: fetch_outcome.splits option.splits)
  have n1: "?down ?req = Rejected ''fetch failed''"
    by (simp add: respondAt_def u)
  have n2: "respond 404 ''Not Found'' None ?req
      = Resolved \<lparr>status = 404, statusText = ''Not Found'', jsonBody = None\<rparr>"
    and n3: "respond 200 ''OK'' None ?req
      = Resolved \<lparr>status = 200, statusText = ''OK'', jsonBody = None\<rparr>"
    and n4: "respond 200 ''OK'' (Some scenarioBody) ?req
      = Resolved \<lparr>status = 200, statusText = ''OK'', jsonBody = Some scenarioBody\<rparr>"
    by (simp_all add: respond_def)
  have k2: "\<not> ok \<lparr>status = 404, statusText = ''Not Found'', jsonBody = None\<rparr>"
    and k3: "ok \<lparr>status = 200, statusText = ''OK'', jsonBody = None\<rparr>"
    and k4: "ok \<lparr>status = 200, statusText = ''OK'', jsonBody = Some scenarioBody\<rparr>"
    by (simp_all add: ok_def)
  have a1: "result (fetchAPI [] ?down ''/posts'' noOptions) = Inl (TypeError ''fetch failed'')
      \<and> console (fetchAPI [] ?down ''/posts'' noOptions) =
          [ConsoleError ''Strapi API fetch error:'' (Some (TypeError ''fetch failed''))]"
    using fetchAPI_logs_failure
      [where penv = "[]" and network = ?down and p = "''/posts''" and options = noOptions
         and reason = "''fetch failed''"] n1
    by blast
  have a2: "result (fetchAPI [] (respond 404 ''Not Found'' None) ''/posts'' noOptions) =
        Inl (Error ''Strapi API error: 404'')
      \<and> console (fetchAPI [] (respond 404 ''Not Found'' None) ''/posts'' noOptions) =
          [ConsoleError ''Strapi API error: 404 Not Found'' None,
           ConsoleError ''Strapi API fetch error:'' (Some (Error ''Strapi API error: 404''))]"
    using fetchAPI_logs_failure
      [where penv = "[]" and network = "respond 404 ''Not Found'' None" and p = "''/posts''"
         and options = noOptions
         and r = "\<lparr>status = 404, statusText = ''Not Found'', jsonBody = None\<rparr>"] n2 k2
    by (simp add: d del: decimal.simps)
  have a3: "result (fetchAPI [] (respond 200 ''OK'' None) ''/posts'' noOptions) = Inl SyntaxError
      \<and> console (fetchAPI [] (respond 200 ''OK'' None) ''/posts'' noOptions) =
          [ConsoleError ''Strapi API fetch error:'' (Some SyntaxError)]"
    using fetchAPI_logs_failure
      [where penv = "[]" and network = "respond 200 ''OK'' None" and p = "''/posts''"
         and options = noOptions
         and r = "\<lparr>status = 200, statusText = ''OK'', jsonBody = None\<rparr>"] n3 k3
    by (simp del: decimal.simps)
  have a4: "result (fetchAPI [] (respond 200 ''OK'' (Some scenarioBody)) ''/posts'' noOptions) = Inr scenarioBody
      \<and> console (fetchAPI [] (respond 200 ''OK'' (Some scenarioBody)) ''/posts'' noOptions) = []"
    using fetchAPI_logs_failure
      [where penv = "[]" and network = "respond 200 ''OK'' (Some scenarioBody)" and p = "''/posts''"
         and options = noOptions and d = scenarioBody
         and r = "\<lparr>status = 200, statusText = ''OK'', jsonBody = Some scenarioBody\<rparr>"] n4 k4
    by (simp del: decimal.simps)
  have eqI: "x = \<lparr>result = a, requests = b, console = c\<rparr>"
    if "result x = a" "requests x = b" "console x = c" for x :: run and a b c
    using that by (cases x) simp
  show ?thesis
    using a1 a2 a3 a4 k2 k3 by (auto intro!: eqI simp: reqs)
qed

subsection \<open>C9\<close>

text \<open>
  C9. When \<^verbatim>\<open>NEXT_PUBLIC_STRAPI_API_URL\<close> is unset, \<^verbatim>\<open>fetchAPI\<close> sends its one
  request to \<^verbatim>\<open>http://localhost:1337/api\<close> followed by the path, and returns the body
  of a successful response: the missing variable is no error.
\<close>

theorem fetchAPI_default_base_url:
  assumes "map_of penv ''NEXT_PUBLIC_STRAPI_API_URL'' = None"
  shows "requests (fetchAPI penv network p options) =
           [\<lparr>url = ''http://localhost:1337/api'' @ p, init = mergedOptions options\<rparr>]
         \<and> (\<forall>r d. network \<lparr>url = ''http://localhost:1337/api'' @ p, init = mergedOptions options\<rparr>
                     = Resolved r \<and> ok r \<and> jsonBody r = Some d \<longrightarrow>
               fetchAPI penv network p options =
                 \<lparr>result = Inr d,
                  requests = [\<lparr>url = ''http://localhost:1337/api'' @ p, init = mergedOptions options\<rparr>],
                  console = []\<rparr>)"
  using assms
  by (auto simp add: fetchAPI_def Let_def requestUrl_def STRAPI_URL_def
      split: fetch_outcome.splits option.splits)

theorem fetchAPI_default_base_url_witness:
  "map_of [(''NODE_ENV'', ''development'')] ''NEXT_PUBLIC_STRAPI_API_URL'' = None
   \<and> map url (requests (fetchAPI [(''NODE_ENV'', ''development'')]
                 (respondAt ''http://localhost:1337/api/posts?populate=*'' 200 ''OK'' (Some scenarioBody))
                 ''/posts?populate=*'' noOptions))
       = [''http://localhost:1337/api/posts?populate=*'']
   \<and> result (fetchAPI [(''NODE_ENV'', ''development'')]
                 (respondAt ''http://localhost:1337/api/posts?populate=*'' 200 ''OK'' (Some scenarioBody))
                 ''/posts?populate=*'' noOptions) = Inr scenarioBody"
proof -
  let ?net = "respondAt ''http://localhost:1337/api/posts?populate=*'' 200 ''OK'' (Some scenarioBody)"
  have unset: "map_of [(''NODE_ENV'', ''development'')] ''NEXT_PUBLIC_STRAPI_API_URL'' = None"
    by simp
  note inst = fetchAPI_default_base_url [OF unset, where network = ?net and p = "''/posts?populate=*''"
      and options = noOptions]
  have "?net \<lparr>url = ''http://localhost:1337/api'' @ ''/posts?populate=*'', init = mergedOptions noOptions\<rparr>
          = Resolved \<lparr>status = 200, statusText = ''OK'', jsonBody = Some scenarioBody\<rparr>"
    by (simp add: respondAt_def)
  moreover have "ok \<lparr>status = 200, statusText = ''OK'', jsonBody = Some scenarioBody\<rparr>"
    by (simp add: ok_def)
  ultimately have "fetchAPI [(''NODE_ENV'', ''development'')] ?net ''/posts?populate=*'' noOptions =
      \<lparr>result = Inr scenarioBody,
       requests = [\<lparr>url = ''http://localhost:1337/api'' @ ''/posts?populate=*'', init = mergedOptions noOptions\<rparr>],
       console = []\<rparr>"
    using inst by simp
  then show ?thesis using unset by simp
qed

subsection \<open>C10\<close>

text \<open>
  C10. A body that the schema rejects makes \<^verbatim>\<open>fetchFromStrapi\<close> throw a
  \<^verbatim>\<open>StrapiError\<close> with status 500 and the zod error as details; a response with HTTP
  status 500 makes it throw a \<^verbatim>\<open>StrapiError\<close> with status 500 as well. The two
  differ in message and details only.
\<close>

theorem fetchFromStrapi_single_error_class:
  "(network (strapiRequest e p options) = Resolved r \<and> ok r \<and> jsonBody r = Some raw
      \<and> parse S raw = Inl issues \<longrightarrow>
      result (fetchFromStrapi e network p S options) =
        Inl (StrapiError ''Invalid data received from Strapi'' 500 (Some (ZodError issues))))
   \<and> (network' (strapiRequest e p options) = Resolved r' \<and> status r' = 500 \<longrightarrow>
      result (fetchFromStrapi e network' p S options) =
        Inl (StrapiError (''Strapi API error: '' @ statusText r') 500 None))"
  by (simp add: fetchFromStrapi_def Let_def ok_def)

theorem fetchFromStrapi_single_error_class_witness:
  "parse (strapiSingleSchema articleSchema) notUuidBody =
     Inl [Issue (invalid_string ''uuid'') [Key ''data'', Key ''id''],
          Issue (invalid_type ''object'' ''undefined'') [Key ''data'', Key ''attributes''],
          Issue (invalid_type ''object'' ''undefined'') [Key ''meta'']]
   \<and> result (fetchFromStrapi localEnv (respond 200 ''OK'' (Some notUuidBody)) ''/articles/7''
               (strapiSingleSchema articleSchema) noOptions) =
       Inl (StrapiError ''Invalid data received from Strapi'' 500
             (Some (ZodError
                [Issue (invalid_string ''uuid'') [Key ''data'', Key ''id''],
                 Issue (invalid_type ''object'' ''undefined'') [Key ''data'', Key ''attributes''],
                 Issue (invalid_type ''object'' ''undefined'') [Key ''meta'']])))
   \<and> result (fetchFromStrapi localEnv (respond 500 ''Internal Server Error'' None) ''/articles/7''
               (strapiSingleSchema articleSchema) noOptions) =
       Inl (StrapiError ''Strapi API error: Internal Server Error'' 500 None)"
  using fetchFromStrapi_single_error_class
    [where network = "respond 200 ''OK'' (Some notUuidBody)" and e = localEnv and p = "''/articles/7''"
       and options = noOptions and S = "strapiSingleSchema articleSchema"
       and r = "\<lparr>status = 200, statusText = ''OK'', jsonBody = Some notUuidBody\<rparr>"
       and raw = notUuidBody
       and issues = "[Issue (invalid_string ''uuid'') [Key ''data'', Key ''id''],
                      Issue (invalid_type ''object'' ''undefined'') [Key ''data'', Key ''attributes''],
                      Issue (invalid_type ''object'' ''undefined'') [Key ''meta'']]"
       and network' = "respond 500 ''Internal Server Error'' None"
       and r' = "\<lparr>status = 500, statusText = ''Internal Server Error'', jsonBody = None\<rparr>"]
  by (simp add: respond_def ok_def notUuid_rejected)

end
